theory Spec2Isabelle
  imports Complex_Main
begin

section \<open>JavaScript numbers\<close>

text \<open>
  The valuation engine of \<^verbatim>\<open>EstimatedValue.tsx\<close> computes with JavaScript numbers.
  A number is modelled as a real (the finite values, computed exactly: rounding and
  overflow of the double format are left out), or one of the three special values that
  a division by zero or a missing field produces. Nothing in the engine raises; a
  failure shows as \<open>NaN\<close> or an infinity in the result, so these are values of the model.
  Signed zeros are not distinguished: the only divisors that can be zero are the weight
  totals, sums that start from \<open>+0\<close> and therefore never are \<open>-0\<close>.
\<close>

datatype jsnum = Fin real | PInf | NInf | NaN

text \<open>A property read from an object is a number or \<open>undefined\<close> (\<open>None\<close>).\<close>

type_synonym jsval = "jsnum option"

fun toNumber :: "jsval \<Rightarrow> jsnum" where
  "toNumber None = NaN"
| "toNumber (Some x) = x"

fun truthy :: "jsval \<Rightarrow> bool" where
  "truthy None = False"
| "truthy (Some NaN) = False"
| "truthy (Some (Fin x)) = (x \<noteq> 0)"
| "truthy (Some PInf) = True"
| "truthy (Some NInf) = True"

text \<open>\<^verbatim>\<open>a || b\<close>\<close>

definition jsOr :: "jsval \<Rightarrow> jsval \<Rightarrow> jsval" where
  "jsOr a b = (if truthy a then a else b)"

text \<open>\<^verbatim>\<open>(a as number) || 0\<close>\<close>

definition orZero :: "jsval \<Rightarrow> jsnum" where
  "orZero a = (if truthy a then toNumber a else Fin 0)"

fun jneg :: "jsnum \<Rightarrow> jsnum" where
  "jneg (Fin a) = Fin (- a)"
| "jneg PInf = NInf"
| "jneg NInf = PInf"
| "jneg NaN = NaN"

fun jadd :: "jsnum \<Rightarrow> jsnum \<Rightarrow> jsnum" where
  "jadd (Fin a) (Fin b) = Fin (a + b)"
| "jadd NaN b = NaN"
| "jadd a NaN = NaN"
| "jadd PInf NInf = NaN"
| "jadd NInf PInf = NaN"
| "jadd PInf b = PInf"
| "jadd a PInf = PInf"
| "jadd NInf b = NInf"
| "jadd a NInf = NInf"

definition jsub :: "jsnum \<Rightarrow> jsnum \<Rightarrow> jsnum" where
  "jsub a b = jadd a (jneg b)"

text \<open>The infinity whose sign is that of a non-zero real.\<close>

definition infOf :: "real \<Rightarrow> jsnum" where
  "infOf s = (if s = 0 then NaN else if 0 < s then PInf else NInf)"

fun jmul :: "jsnum \<Rightarrow> jsnum \<Rightarrow> jsnum" where
  "jmul (Fin a) (Fin b) = Fin (a * b)"
| "jmul NaN b = NaN"
| "jmul a NaN = NaN"
| "jmul PInf (Fin b) = infOf b"
| "jmul NInf (Fin b) = infOf (- b)"
| "jmul (Fin a) PInf = infOf a"
| "jmul (Fin a) NInf = infOf (- a)"
| "jmul PInf PInf = PInf"
| "jmul NInf NInf = PInf"
| "jmul PInf NInf = NInf"
| "jmul NInf PInf = NInf"

fun jdiv :: "jsnum \<Rightarrow> jsnum \<Rightarrow> jsnum" where
  "jdiv (Fin a) (Fin b) = (if b = 0 then infOf a else Fin (a / b))"
| "jdiv NaN b = NaN"
| "jdiv a NaN = NaN"
| "jdiv (Fin a) PInf = Fin 0"
| "jdiv (Fin a) NInf = Fin 0"
| "jdiv PInf (Fin b) = (if 0 \<le> b then PInf else NInf)"
| "jdiv NInf (Fin b) = (if 0 \<le> b then NInf else PInf)"
| "jdiv PInf PInf = NaN"
| "jdiv PInf NInf = NaN"
| "jdiv NInf PInf = NaN"
| "jdiv NInf NInf = NaN"

text \<open>Comparison \<^verbatim>\<open>a < b\<close>: false as soon as one side is \<open>NaN\<close>.\<close>

fun jlt :: "jsnum \<Rightarrow> jsnum \<Rightarrow> bool" where
  "jlt (Fin a) (Fin b) = (a < b)"
| "jlt NaN b = False"
| "jlt a NaN = False"
| "jlt a NInf = False"
| "jlt PInf b = False"
| "jlt NInf b = True"
| "jlt a PInf = True"

definition jgt :: "jsnum \<Rightarrow> jsnum \<Rightarrow> bool" where
  "jgt a b = jlt b a"

fun jle :: "jsnum \<Rightarrow> jsnum \<Rightarrow> bool" where
  "jle (Fin a) (Fin b) = (a \<le> b)"
| "jle NaN b = False"
| "jle a NaN = False"
| "jle NInf b = True"
| "jle a PInf = True"
| "jle a NInf = False"
| "jle PInf b = False"

definition jge :: "jsnum \<Rightarrow> jsnum \<Rightarrow> bool" where
  "jge a b = jle b a"

text \<open>\<^verbatim>\<open>Math.max\<close> and \<^verbatim>\<open>Math.min\<close> of two numbers: \<open>NaN\<close> if either is.\<close>

definition jmax :: "jsnum \<Rightarrow> jsnum \<Rightarrow> jsnum" where
  "jmax a b = (if a = NaN \<or> b = NaN then NaN else if jle a b then b else a)"

definition jmin :: "jsnum \<Rightarrow> jsnum \<Rightarrow> jsnum" where
  "jmin a b = (if a = NaN \<or> b = NaN then NaN else if jle a b then a else b)"

fun jabs :: "jsnum \<Rightarrow> jsnum" where
  "jabs (Fin a) = Fin \<bar>a\<bar>"
| "jabs PInf = PInf"
| "jabs NInf = PInf"
| "jabs NaN = NaN"

fun jsign :: "jsnum \<Rightarrow> jsnum" where
  "jsign (Fin a) = Fin (sgn a)"
| "jsign PInf = Fin 1"
| "jsign NInf = Fin (- 1)"
| "jsign NaN = NaN"

text \<open>\<^verbatim>\<open>Math.round\<close>: the nearest integer, a tie going up.\<close>

fun jround :: "jsnum \<Rightarrow> jsnum" where
  "jround (Fin a) = Fin (of_int \<lfloor>a + 1 / 2\<rfloor>)"
| "jround PInf = PInf"
| "jround NInf = NInf"
| "jround NaN = NaN"

text \<open>\<^verbatim>\<open>Math.pow\<close> with a natural number as exponent; anything to the power 0 is 1.\<close>

definition jpow :: "jsnum \<Rightarrow> nat \<Rightarrow> jsnum" where
  "jpow a n =
     (if n = 0 then Fin 1
      else case a of
             Fin x \<Rightarrow> Fin (x ^ n)
           | PInf \<Rightarrow> PInf
           | NInf \<Rightarrow> (if even n then PInf else NInf)
           | NaN \<Rightarrow> NaN)"

text \<open>\<^verbatim>\<open>isNaN\<close>\<close>

definition isNaN :: "jsnum \<Rightarrow> bool" where
  "isNaN a = (a = NaN)"

text \<open>\<^verbatim>\<open>xs.reduce((sum, v) => sum + v, 0)\<close>\<close>

definition jsum :: "jsnum list \<Rightarrow> jsnum" where
  "jsum xs = foldl jadd (Fin 0) xs"


section \<open>Stat configuration tables\<close>

text \<open>
  \<^verbatim>\<open>STAT_KEY_MAP\<close>: from a configuration key to the field of \<^verbatim>\<open>PlayerStats\<close> that holds
  the statistic, or the marker \<^verbatim>\<open>'HR'\<close>.
\<close>

definition STAT_KEY_MAP :: "(string \<times> string) list" where
  "STAT_KEY_MAP =
    [(''fg_RBI'', ''RBI''),
     (''fg_HR'', ''HR''),
     (''fg_OPS'', ''OPS''),
     (''fg_wRC+'', ''wRCplus''),
     (''fg_BB%'', ''BBpct''),
     (''fg_K%'', ''Kpct''),
     (''fg_PA'', ''PA''),
     (''fg_WAR'', ''WAR''),
     (''fg_xwOBA'', ''xwOBA''),
     (''fg_xSLG'', ''xSLG''),
     (''sc_EV_brl_pa'', ''BarrelPerPA''),
     (''sc_EV_ev50'', ''EV50''),
     (''fg_Def'', ''fg_Def''),
     (''fg_BsR'', ''fg_BsR''),
     (''fg_ERA'', ''ERA''),
     (''fg_FIP'', ''FIP''),
     (''fg_xFIP'', ''xFIP''),
     (''fg_K/9'', ''Kper9''),
     (''fg_BB/9'', ''BBper9''),
     (''fg_WHIP'', ''WHIP''),
     (''fg_IP'', ''IP'')]"

text \<open>
  \<^verbatim>\<open>STAT_KEY_MAP[configKey]\<close>. A key outside the table gives \<open>undefined\<close>, which as a
  property name reads the property \<^verbatim>\<open>"undefined"\<close>.
\<close>

definition statKeyOf :: "string \<Rightarrow> string" where
  "statKeyOf configKey =
     (case map_of STAT_KEY_MAP configKey of None \<Rightarrow> ''undefined'' | Some k \<Rightarrow> k)"

text \<open>
  A descriptor of the configuration tables. Its field \<^verbatim>\<open>weight\<close>, the default weight, is
  \<open>defaultWeight\<close> here, since \<open>weight\<close> names the weight in effect of a comparison.
\<close>

record StatConfig =
  label :: string
  higherBetter :: bool
  defaultWeight :: real
  decimals :: nat
  scale :: string

definition mkConfig :: "string \<Rightarrow> bool \<Rightarrow> real \<Rightarrow> nat \<Rightarrow> string \<Rightarrow> StatConfig" where
  "mkConfig l h w d s =
     \<lparr>label = l, higherBetter = h, defaultWeight = w, decimals = d, scale = s\<rparr>"

definition STAT_CONFIG :: "(string \<times> StatConfig) list" where
  "STAT_CONFIG =
    [(''fg_RBI'', mkConfig ''RBI'' True 0.1 0 ''raw''),
     (''fg_HR'', mkConfig ''HR'' True 0.1 0 ''raw''),
     (''fg_OPS'', mkConfig ''OPS'' True 0.1 3 ''decimal''),
     (''fg_wRC+'', mkConfig ''wRC+'' True 0.1 0 ''raw''),
     (''fg_BB%'', mkConfig ''BB%'' True 0.1 1 ''pct''),
     (''fg_K%'', mkConfig ''K%'' False 0.1 1 ''pct''),
     (''fg_PA'', mkConfig ''PA'' True 0.1 0 ''raw''),
     (''fg_WAR'', mkConfig ''WAR'' True 0.1 1 ''raw''),
     (''fg_xwOBA'', mkConfig ''xwOBA'' True 0.1 3 ''decimal''),
     (''fg_xSLG'', mkConfig ''xSLG'' True 0.1 3 ''decimal''),
     (''sc_EV_brl_pa'', mkConfig ''Barrels/PA'' True 0.1 1 ''pct''),
     (''sc_EV_ev50'', mkConfig ''avgEV'' True 0.1 1 ''mph''),
     (''fg_Def'', mkConfig ''Def'' True 0.1 1 ''runs''),
     (''fg_BsR'', mkConfig ''BsR'' True 0.1 1 ''runs'')]"

definition PITCHER_STAT_CONFIG :: "(string \<times> StatConfig) list" where
  "PITCHER_STAT_CONFIG =
    [(''fg_ERA'', mkConfig ''ERA'' False 0.15 2 ''decimal''),
     (''fg_FIP'', mkConfig ''FIP'' False 0.15 2 ''decimal''),
     (''fg_xFIP'', mkConfig ''xFIP'' False 0.15 2 ''decimal''),
     (''fg_K/9'', mkConfig ''K/9'' True 0.15 1 ''raw''),
     (''fg_BB/9'', mkConfig ''BB/9'' False 0.15 2 ''raw''),
     (''fg_WHIP'', mkConfig ''WHIP'' False 0.15 2 ''decimal''),
     (''fg_IP'', mkConfig ''IP'' True 0.10 1 ''raw''),
     (''fg_WAR'', mkConfig ''WAR'' True 0.20 1 ''raw'')]"

section \<open>Players and the inputs of the valuation\<close>

text \<open>
  A statistical snapshot is read by field name, and a field may be missing. Of a player
  the engine reads the identifier, the contract facts and two snapshots; the snapshot
  before the signing exists for some comparables only. The signing year is a calendar
  year, an integer, when present. The field \<^verbatim>\<open>id\<close> is \<open>pid\<close> here.
\<close>

type_synonym PlayerStats = "string \<Rightarrow> jsval"

record Player =
  pid :: string
  AAV :: jsnum
  years :: jsnum
  signedYear :: "int option"
  threeYearStats :: PlayerStats
  threeYearContractStats :: "PlayerStats option"

text \<open>
  What the closure \<^verbatim>\<open>calculations\<close> reads from the component: the subject's trailing
  snapshot, the comparables, the state set by the user. \<^verbatim>\<open>isPitcher(player)\<close> is computed
  by the player database and enters as a flag.
\<close>

record Inputs =
  PETE_STATS :: PlayerStats
  isPitcherPlayer :: bool
  COMPS :: "Player list"
  selectedComps :: "string set"
  customWeights :: "string \<Rightarrow> jsval"
  adjustAAV :: bool
  adjustYears :: bool
  inflationPercent :: jsnum

definition activeStatConfig :: "bool \<Rightarrow> (string \<times> StatConfig) list" where
  "activeStatConfig pitcher = (if pitcher then PITCHER_STAT_CONFIG else STAT_CONFIG)"

section \<open>Cohort aggregation\<close>

text \<open>\<^verbatim>\<open>COMPS.filter((c) => selectedComps.has(c.id))\<close>\<close>

definition activeComps_of :: "Player list \<Rightarrow> string set \<Rightarrow> Player list" where
  "activeComps_of comps selected = filter (\<lambda>c. pid c \<in> selected) comps"

definition presentYear_const :: int where
  "presentYear_const = 2025"

definition inflationRate_of :: "jsnum \<Rightarrow> jsnum" where
  "inflationRate_of inflPercent = jdiv (jmax (Fin 0) inflPercent) (Fin 100)"

text \<open>
  \<^verbatim>\<open>signedYear ? Math.max(0, presentYear - signedYear) : 0\<close>: a year that is missing or 0
  is falsy.
\<close>

definition yearsSinceSigning :: "int option \<Rightarrow> nat" where
  "yearsSinceSigning sy =
     (case sy of
        None \<Rightarrow> 0
      | Some y \<Rightarrow> if y = 0 then 0 else nat (max 0 (presentYear_const - y)))"

definition adjustedAAV :: "jsnum \<Rightarrow> Player \<Rightarrow> jsnum" where
  "adjustedAAV inflationRate c =
     (let factor = jpow (jadd (Fin 1) inflationRate) (yearsSinceSigning (signedYear c))
      in jmul (AAV c) factor)"

definition adjustedAAVs_of :: "jsnum \<Rightarrow> Player list \<Rightarrow> jsnum list" where
  "adjustedAAVs_of inflPercent active = map (adjustedAAV (inflationRate_of inflPercent)) active"

text \<open>The length of an array as a number.\<close>

definition lengthNum :: "'a list \<Rightarrow> jsnum" where
  "lengthNum xs = Fin (real (length xs))"

definition baselineAAV_of :: "jsnum \<Rightarrow> Player list \<Rightarrow> jsnum" where
  "baselineAAV_of inflPercent active =
     jdiv (jsum (adjustedAAVs_of inflPercent active)) (lengthNum active)"

definition rawBaselineAAV_of :: "Player list \<Rightarrow> jsnum" where
  "rawBaselineAAV_of active = jdiv (jsum (map AAV active)) (lengthNum active)"

definition signedYearOrZero :: "int option \<Rightarrow> jsnum" where
  "signedYearOrZero sy = (case sy of None \<Rightarrow> Fin 0 | Some y \<Rightarrow> Fin (of_int y))"

definition cohortAvgSignedYear_of :: "Player list \<Rightarrow> jsnum" where
  "cohortAvgSignedYear_of active =
     jdiv (jsum (map (\<lambda>c. signedYearOrZero (signedYear c)) active)) (lengthNum active)"

definition baselineYears_of :: "Player list \<Rightarrow> jsnum" where
  "baselineYears_of active = jdiv (jsum (map years active)) (lengthNum active)"

text \<open>\<^verbatim>\<open>(c.threeYearContractStats?.age as number) || (c.threeYearStats.age as number)\<close>\<close>

definition ageAtSigning :: "Player \<Rightarrow> jsval" where
  "ageAtSigning c =
     jsOr (case threeYearContractStats c of None \<Rightarrow> None | Some s \<Rightarrow> s ''age'')
          (threeYearStats c ''age'')"

definition cohortSigningAge_of :: "PlayerStats \<Rightarrow> Player list \<Rightarrow> jsval" where
  "cohortSigningAge_of pete active =
     jsOr (Some (jdiv (jsum (map (\<lambda>c. toNumber (ageAtSigning c)) active)) (lengthNum active)))
          (pete ''age'')"

text \<open>\<^verbatim>\<open>c.threeYearContractStats || c.threeYearStats\<close>\<close>

definition preSigningStats :: "Player \<Rightarrow> PlayerStats" where
  "preSigningStats c =
     (case threeYearContractStats c of None \<Rightarrow> threeYearStats c | Some s \<Rightarrow> s)"

text \<open>The cohort's mean of one statistic, with the home runs read from \<^verbatim>\<open>HRperPA\<close>.\<close>

definition cohortStat :: "Player list \<Rightarrow> string \<Rightarrow> jsnum" where
  "cohortStat active statKey =
     (if statKey = ''HR'' then
        (let avgHr = jdiv (jsum (map (\<lambda>c. jround (orZero (preSigningStats c ''HRperPA''))) active))
                          (lengthNum active)
         in if isNaN avgHr then Fin 0 else avgHr)
      else
        jdiv (jsum (map (\<lambda>c. orZero (preSigningStats c statKey)) active)) (lengthNum active))"

text \<open>
  \<^verbatim>\<open>Object.keys(activeStatConfig).reduce(...)\<close>: the object of the cohort's means, filled
  key by key.
\<close>

definition cohortStats_of :: "(string \<times> StatConfig) list \<Rightarrow> Player list \<Rightarrow> (string \<rightharpoonup> jsnum)" where
  "cohortStats_of cfg active =
     fold (\<lambda>configKey acc. acc(statKeyOf configKey \<mapsto> cohortStat active (statKeyOf configKey)))
          (map fst cfg) Map.empty"

section \<open>Stat comparator\<close>

record StatComparison =
  stat :: string
  key :: string
  peteValue :: jsnum
  cohortValue :: jsnum
  ratio :: jsnum
  delta :: jsnum
  pctDiff :: jsnum
  weight :: jsval

definition pctDiff_of :: "jsnum \<Rightarrow> jsnum \<Rightarrow> jsnum" where
  "pctDiff_of dlt cohortV =
     (if jlt (jabs cohortV) (Fin 0.001) then
        jmul (jsign dlt) (jmin (Fin 500) (jabs (jmul dlt (Fin 100))))
      else
        jmax (Fin (- 500)) (jmin (Fin 500) (jmul (jdiv dlt (jabs cohortV)) (Fin 100))))"

definition ratio_of :: "string \<Rightarrow> bool \<Rightarrow> jsnum \<Rightarrow> jsnum \<Rightarrow> jsnum" where
  "ratio_of configKey higherB peteV cohortV =
     (let dlt = jsub peteV cohortV in
      if configKey = ''fg_Def'' \<or> configKey = ''fg_BsR'' then
        (let typicalRange = Fin 10;
             deltaRatio = jadd (Fin 1) (jmul (jdiv dlt typicalRange) (Fin 0.2))
         in jmax (Fin 0.5) (jmin (Fin 2.0) deltaRatio))
      else if higherB then
        jmax (Fin 0.1) (jmin (Fin 10)
          (if jlt (jabs cohortV) (Fin 0.001) then
             (if jgt peteV (Fin 0) then Fin 1.1 else if jlt peteV (Fin 0) then Fin 0.9 else Fin 1)
           else jdiv peteV cohortV))
      else
        jmax (Fin 0.1) (jmin (Fin 10)
          (if jlt (jabs peteV) (Fin 0.001) then
             (if jgt cohortV (Fin 0) then Fin 1.1 else if jlt cohortV (Fin 0) then Fin 0.9 else Fin 1)
           else jdiv cohortV peteV)))"

text \<open>
  The subject's value and the cohort's value of one statistic. The home runs of the
  subject are \<^verbatim>\<open>Math.round(PETE_STATS.HRperPA as number)\<close>, with no default; every other
  field is read with \<^verbatim>\<open>|| 0\<close>. The cohort's home runs are read from \<^verbatim>\<open>cohortStats\<close> as
  they are (an undefined there would act as \<open>NaN\<close> in the arithmetic that follows).
\<close>

definition peteValue_of :: "PlayerStats \<Rightarrow> string \<Rightarrow> jsnum" where
  "peteValue_of pete statKey =
     (if statKey = ''HR'' then jround (toNumber (pete ''HRperPA''))
      else orZero (pete statKey))"

definition cohortValue_of :: "(string \<rightharpoonup> jsnum) \<Rightarrow> string \<Rightarrow> jsnum" where
  "cohortValue_of cstats statKey =
     (if statKey = ''HR'' then toNumber (cstats statKey)
      else orZero (cstats statKey))"

definition statComparison ::
  "PlayerStats \<Rightarrow> (string \<rightharpoonup> jsnum) \<Rightarrow> (string \<Rightarrow> jsval) \<Rightarrow> string \<times> StatConfig \<Rightarrow> StatComparison" where
  "statComparison pete cstats weights entry =
     (let configKey = fst entry;
          config = snd entry;
          statKey = statKeyOf configKey;
          peteV = peteValue_of pete statKey;
          cohortV = cohortValue_of cstats statKey;
          dlt = jsub peteV cohortV
      in \<lparr>stat = label config,
          key = configKey,
          peteValue = peteV,
          cohortValue = cohortV,
          ratio = ratio_of configKey (higherBetter config) peteV cohortV,
          delta = dlt,
          pctDiff = pctDiff_of dlt cohortV,
          weight = weights configKey\<rparr>)"

definition statComparisons_of ::
  "(string \<times> StatConfig) list \<Rightarrow> PlayerStats \<Rightarrow> (string \<rightharpoonup> jsnum) \<Rightarrow> (string \<Rightarrow> jsval)
   \<Rightarrow> StatComparison list" where
  "statComparisons_of cfg pete cstats weights = map (statComparison pete cstats weights) cfg"

section \<open>Weighted multiplier engine\<close>

record StatImpact = StatComparison +
  contribution :: jsnum
  aavImpact :: jsnum

text \<open>
  \<^verbatim>\<open>statComparisons.map((comp) => ...)\<close> with its two accumulators: the callback adds to
  \<^verbatim>\<open>weightedSum\<close> and \<^verbatim>\<open>totalWeight\<close> and then divides by \<^verbatim>\<open>totalWeight\<close> as it stands
  at that statistic. Each impact is the comparison (\<^verbatim>\<open>...comp\<close>) with the two new fields.
  The loop returns the impacts and the final accumulators.
\<close>

fun statImpactsLoop ::
  "jsnum \<Rightarrow> jsnum \<Rightarrow> jsnum \<Rightarrow> StatComparison list \<Rightarrow> StatImpact list \<times> jsnum \<times> jsnum" where
  "statImpactsLoop bAAV weightedSum totalWeight [] = ([], weightedSum, totalWeight)"
| "statImpactsLoop bAAV weightedSum totalWeight (sc # rest) =
     (let contrib = jmul (jsub (ratio sc) (Fin 1)) (toNumber (weight sc));
          weightedSum' = jadd weightedSum (jmul (ratio sc) (toNumber (weight sc)));
          totalWeight' = jadd totalWeight (toNumber (weight sc));
          impact = jdiv (jmul bAAV contrib) totalWeight';
          after = statImpactsLoop bAAV weightedSum' totalWeight' rest
      in (\<lparr>stat = stat sc, key = key sc, peteValue = peteValue sc,
           cohortValue = cohortValue sc, ratio = ratio sc, delta = delta sc,
           pctDiff = pctDiff sc, weight = weight sc,
           contribution = contrib, aavImpact = impact\<rparr> # fst after,
          snd after))"

definition statImpacts_of :: "jsnum \<Rightarrow> StatComparison list \<Rightarrow> StatImpact list" where
  "statImpacts_of bAAV scs = fst (statImpactsLoop bAAV (Fin 0) (Fin 0) scs)"

definition weightedSum_of :: "jsnum \<Rightarrow> StatComparison list \<Rightarrow> jsnum" where
  "weightedSum_of bAAV scs = fst (snd (statImpactsLoop bAAV (Fin 0) (Fin 0) scs))"

definition totalWeight_of :: "jsnum \<Rightarrow> StatComparison list \<Rightarrow> jsnum" where
  "totalWeight_of bAAV scs = snd (snd (statImpactsLoop bAAV (Fin 0) (Fin 0) scs))"

definition sensitivityMultiplier :: jsnum where
  "sensitivityMultiplier = Fin 1.4"

definition scaledMultiplier_of :: "jsnum \<Rightarrow> jsnum" where
  "scaledMultiplier_of rawMultiplier =
     jadd (Fin 1) (jmul (jsub rawMultiplier (Fin 1)) sensitivityMultiplier)"

definition aavMultiplier_of :: "bool \<Rightarrow> jsnum \<Rightarrow> jsnum" where
  "aavMultiplier_of adjAAV rawMultiplier =
     (if adjAAV then jmax (Fin 0.50) (jmin (Fin 2.0) (scaledMultiplier_of rawMultiplier))
      else Fin 1.0)"

text \<open>\<^verbatim>\<open>rawImpactSum !== 0 ? actualDifference / rawImpactSum : 1\<close>\<close>

definition impactScale_of :: "jsnum \<Rightarrow> jsnum \<Rightarrow> jsnum" where
  "impactScale_of rawImpactSum actualDifference =
     (if rawImpactSum \<noteq> Fin 0 then jdiv actualDifference rawImpactSum else Fin 1)"

definition scaledStatImpacts_of :: "jsnum \<Rightarrow> StatImpact list \<Rightarrow> StatImpact list" where
  "scaledStatImpacts_of impactScale impacts =
     map (\<lambda>impact. impact\<lparr>aavImpact := jmul (aavImpact impact) impactScale\<rparr>) impacts"

section \<open>Years adjustment engine\<close>

definition penaltyComponent_of :: "bool \<Rightarrow> jsnum \<Rightarrow> jsnum" where
  "penaltyComponent_of pitcher olderDelta =
     (if pitcher then
        jadd (jmul (Fin 0.03) olderDelta) (jmul (jmul (Fin 0.005) olderDelta) olderDelta)
      else
        jadd (jmul (Fin 0.05) olderDelta) (jmul (jmul (Fin 0.010) olderDelta) olderDelta))"

definition benefitComponent_of :: "bool \<Rightarrow> jsnum \<Rightarrow> jsnum" where
  "benefitComponent_of pitcher youngerDelta =
     (if pitcher then
        jsub (jmul (Fin 0.05) youngerDelta) (jmul (jmul (Fin 0.002) youngerDelta) youngerDelta)
      else
        jsub (jmul (Fin 0.03) youngerDelta) (jmul (jmul (Fin 0.005) youngerDelta) youngerDelta))"

definition rawAgeMultiplier_of :: "bool \<Rightarrow> jsnum \<Rightarrow> jsnum" where
  "rawAgeMultiplier_of pitcher ageDlt =
     (let olderDelta = jmax (Fin 0) ageDlt;
          youngerDelta = jmax (Fin 0) (jneg ageDlt)
      in jadd (jsub (Fin 1) (penaltyComponent_of pitcher olderDelta))
              (benefitComponent_of pitcher youngerDelta))"

definition isVeryYoungHighPerformer_of :: "jsnum \<Rightarrow> jsnum \<Rightarrow> bool" where
  "isVeryYoungHighPerformer_of age aavMult = (jle age (Fin 25) \<and> jge aavMult (Fin 1.15))"

definition ageMultiplier_of :: "bool \<Rightarrow> jsnum \<Rightarrow> jsnum" where
  "ageMultiplier_of young rawAgeMultiplier =
     (if young then
        (let boostedMultiplier = jmul rawAgeMultiplier (Fin 1.15)
         in jmax (Fin 0.6) (jmin (Fin 1.8) boostedMultiplier))
      else jmax (Fin 0.6) (jmin (Fin 1.5) rawAgeMultiplier))"

definition absoluteAgePenalty_of :: "bool \<Rightarrow> jsnum \<Rightarrow> jsnum" where
  "absoluteAgePenalty_of pitcher age =
     (if pitcher then
        (if jge age (Fin 33) then jmin (Fin 1.5) (jmul (jsub age (Fin 32)) (Fin 0.15)) else Fin 0)
      else
        (if jge age (Fin 31) then jmin (Fin 2.0) (jmul (jsub age (Fin 30)) (Fin 0.25)) else Fin 0))"

definition performanceAdjustment_of :: "bool \<Rightarrow> jsnum \<Rightarrow> jsnum \<Rightarrow> jsnum" where
  "performanceAdjustment_of pitcher youngerDelta aavMult =
     (let performanceMultiplier = (if pitcher \<and> jgt youngerDelta (Fin 0) then Fin 2.75 else Fin 1.8);
          performanceAdjustmentRaw = jmul (jsub aavMult (Fin 1)) performanceMultiplier
      in jmax (Fin (- 1.5)) (jmin (Fin 1.5) performanceAdjustmentRaw))"

definition totalYearsAdjustment_of :: "bool \<Rightarrow> jsnum \<Rightarrow> jsnum \<Rightarrow> jsnum \<Rightarrow> jsnum \<Rightarrow> jsnum" where
  "totalYearsAdjustment_of adjYears bYears ageMult agePenalty perfAdj =
     (if adjYears then
        jadd (jsub (jsub (jmul bYears ageMult) bYears) agePenalty) perfAdj
      else Fin 0)"

definition softCapLimit_of :: "bool \<Rightarrow> jsnum" where
  "softCapLimit_of young = (if young then Fin 5.0 else Fin 2.0)"

definition cappedYears_of :: "bool \<Rightarrow> jsnum \<Rightarrow> jsnum \<Rightarrow> jsnum" where
  "cappedYears_of young bYears totalAdj =
     jmin (jadd bYears (softCapLimit_of young)) (jadd bYears totalAdj)"

definition fairYears_of :: "jsnum \<Rightarrow> jsnum" where
  "fairYears_of capped = jmax (Fin 1) (jdiv (jround (jmul capped (Fin 2))) (Fin 2))"

section \<open>Valuation orchestrator\<close>

text \<open>
  The object returned by \<^verbatim>\<open>calculations\<close>. The fields after \<open>statImpacts\<close> are set by
  the main branch only; the branch of the empty cohort leaves them out (\<open>None\<close>).
\<close>

record Calculations =
  baselineAAV :: jsnum
  baselineYears :: jsnum
  fairAAV :: jsnum
  fairYears :: jsnum
  aavMultiplier :: jsnum
  yearsAdjustment :: jsnum
  cohortStats :: "string \<rightharpoonup> jsnum"
  statComparisons :: "StatComparison list"
  statImpacts :: "StatImpact list"
  ageDelta :: jsval
  ageMultiplier :: jsval
  absoluteAgePenalty :: jsval
  performanceAdjustment :: jsval
  proposedYears :: jsval
  cappedYears :: jsval
  cohortSigningAge :: jsval
  rawBaselineAAV :: jsval
  inflationAdjustedById :: "(string \<times> jsnum) list option"
  presentYear :: "int option"
  cohortAvgSignedYear :: jsval

definition emptyCohortResult :: Calculations where
  "emptyCohortResult =
     \<lparr>baselineAAV = Fin 0,
      baselineYears = Fin 0,
      fairAAV = Fin 0,
      fairYears = Fin 0,
      aavMultiplier = Fin 1,
      yearsAdjustment = Fin 0,
      cohortStats = Map.empty,
      statComparisons = [],
      statImpacts = [],
      ageDelta = None,
      ageMultiplier = None,
      absoluteAgePenalty = None,
      performanceAdjustment = None,
      proposedYears = None,
      cappedYears = None,
      cohortSigningAge = None,
      rawBaselineAAV = None,
      inflationAdjustedById = None,
      presentYear = None,
      cohortAvgSignedYear = None\<rparr>"

definition calculations :: "Inputs \<Rightarrow> Calculations" where
  "calculations inp =
     (let active = activeComps_of (COMPS inp) (selectedComps inp) in
      if length active = 0 then emptyCohortResult
      else
        (let pete = PETE_STATS inp;
             pitcher = isPitcherPlayer inp;
             cfg = activeStatConfig pitcher;
             adjAAVs = adjustedAAVs_of (inflationPercent inp) active;
             bAAV = baselineAAV_of (inflationPercent inp) active;
             bYears = baselineYears_of active;
             signingAge = cohortSigningAge_of pete active;
             cstats = cohortStats_of cfg active;
             scs = statComparisons_of cfg pete cstats (customWeights inp);
             impacts = statImpacts_of bAAV scs;
             rawMultiplier = jdiv (weightedSum_of bAAV scs) (totalWeight_of bAAV scs);
             aavMult = aavMultiplier_of (adjustAAV inp) rawMultiplier;
             fAAV = jmul bAAV aavMult;
             rawImpactSum = jsum (map aavImpact impacts);
             actualDifference = jsub fAAV bAAV;
             impactScale = impactScale_of rawImpactSum actualDifference;
             scaledStatImpacts = scaledStatImpacts_of impactScale impacts;
             age = toNumber (pete ''age'');
             ageDlt = jsub age (toNumber signingAge);
             youngerDelta = jmax (Fin 0) (jneg ageDlt);
             rawAgeMultiplier = rawAgeMultiplier_of pitcher ageDlt;
             young = isVeryYoungHighPerformer_of age aavMult;
             ageMult = ageMultiplier_of young rawAgeMultiplier;
             agePenalty = absoluteAgePenalty_of pitcher age;
             perfAdj = performanceAdjustment_of pitcher youngerDelta aavMult;
             totalYearsAdjustment = totalYearsAdjustment_of (adjustYears inp) bYears ageMult agePenalty perfAdj;
             proposed = jadd bYears totalYearsAdjustment;
             capped = cappedYears_of young bYears totalYearsAdjustment;
             fYears = fairYears_of capped
         in \<lparr>baselineAAV = bAAV,
             baselineYears = bYears,
             fairAAV = fAAV,
             fairYears = fYears,
             aavMultiplier = aavMult,
             yearsAdjustment = totalYearsAdjustment,
             cohortStats = cstats,
             statComparisons = scs,
             statImpacts = scaledStatImpacts,
             ageDelta = Some ageDlt,
             ageMultiplier = Some ageMult,
             absoluteAgePenalty = Some agePenalty,
             performanceAdjustment = Some perfAdj,
             proposedYears = Some proposed,
             cappedYears = Some capped,
             cohortSigningAge = signingAge,
             rawBaselineAAV = Some (rawBaselineAAV_of active),
             inflationAdjustedById = Some (zip (map pid active) adjAAVs),
             presentYear = Some presentYear_const,
             cohortAvgSignedYear = Some (cohortAvgSignedYear_of active)\<rparr>))"

text \<open>
  The naive impacts of an input (the local \<^verbatim>\<open>statImpacts\<close>, before the rescaling), and
  the sum of the \<^verbatim>\<open>aavImpact\<close> of a list of impacts.
\<close>

definition naiveStatImpacts :: "Inputs \<Rightarrow> StatImpact list" where
  "naiveStatImpacts inp =
     (let active = activeComps_of (COMPS inp) (selectedComps inp);
          cfg = activeStatConfig (isPitcherPlayer inp);
          bAAV = baselineAAV_of (inflationPercent inp) active;
          cstats = cohortStats_of cfg active;
          scs = statComparisons_of cfg (PETE_STATS inp) cstats (customWeights inp)
      in statImpacts_of bAAV scs)"

definition impactSum :: "StatImpact list \<Rightarrow> jsnum" where
  "impactSum impacts = jsum (map aavImpact impacts)"

section \<open>Reading finite values; example inputs\<close>

fun isFin :: "jsnum \<Rightarrow> bool" where
  "isFin (Fin a) = True"
| "isFin PInf = False"
| "isFin NInf = False"
| "isFin NaN = False"

fun finVal :: "jsnum \<Rightarrow> real" where
  "finVal (Fin a) = a"
| "finVal PInf = 0"
| "finVal NInf = 0"
| "finVal NaN = 0"

text \<open>
  A hitter's snapshot with every field of the hitter configuration, given its runs batted
  in and its home-run field; a comparable signed in 2023 for 5 years at 20 a year; a
  hitter valued against that one comparable, every weight at the slider's maximum 1,
  both toggles on, 4 percent inflation.
\<close>

definition ex_hitterStats :: "real \<Rightarrow> real \<Rightarrow> PlayerStats" where
  "ex_hitterStats rbi hr =
     map_of
       [(''RBI'', Fin rbi), (''HRperPA'', Fin hr), (''OPS'', Fin 0.8), (''wRCplus'', Fin 120),
        (''BBpct'', Fin 10), (''Kpct'', Fin 20), (''PA'', Fin 600), (''WAR'', Fin 3),
        (''xwOBA'', Fin 0.35), (''xSLG'', Fin 0.45), (''BarrelPerPA'', Fin 8),
        (''EV50'', Fin 100), (''fg_Def'', Fin 2), (''fg_BsR'', Fin 1), (''age'', Fin 28)]"

definition ex_comp :: Player where
  "ex_comp =
     \<lparr>pid = ''comp-a'', AAV = Fin 20, years = Fin 5, signedYear = Some 2023,
      threeYearStats = ex_hitterStats 100 20, threeYearContractStats = None\<rparr>"

definition ex_inputs :: Inputs where
  "ex_inputs =
     \<lparr>PETE_STATS = ex_hitterStats 125 10,
      isPitcherPlayer = False,
      COMPS = [ex_comp],
      selectedComps = {''comp-a''},
      customWeights = (\<lambda>k. Some (Fin 1)),
      adjustAAV = True,
      adjustYears = True,
      inflationPercent = Fin 4\<rparr>"

section \<open>The empty cohort\<close>

lemma calculations_empty:
  "activeComps_of (COMPS inp) (selectedComps inp) = [] \<Longrightarrow> calculations inp = emptyCohortResult"
  by (simp add: calculations_def)

lemma ex_inputs_active:
  "activeComps_of (COMPS ex_inputs) (selectedComps ex_inputs) \<noteq> []"
  by code_simp

lemma ex_inputs_none_selected:
  "activeComps_of (COMPS (ex_inputs\<lparr>selectedComps := {}\<rparr>))
     (selectedComps (ex_inputs\<lparr>selectedComps := {}\<rparr>)) = []"
  by (simp add: activeComps_of_def)

text \<open>
  Claim C5. When no comparable is selected, the valuation returns the neutral result:
  baseline and fair AAV and years are 0, the multiplier is 1, the years adjustment is 0,
  the cohort statistics are the empty object and both lists are empty. The function is
  total, so this is a returned value, not an exception.
\<close>

theorem C5_empty_cohort_defaults:
  assumes "activeComps_of (COMPS inp) (selectedComps inp) = []"
  shows "baselineAAV (calculations inp) = Fin 0 \<and>
         baselineYears (calculations inp) = Fin 0 \<and>
         fairAAV (calculations inp) = Fin 0 \<and>
         fairYears (calculations inp) = Fin 0 \<and>
         aavMultiplier (calculations inp) = Fin 1 \<and>
         yearsAdjustment (calculations inp) = Fin 0 \<and>
         cohortStats (calculations inp) = Map.empty \<and>
         statComparisons (calculations inp) = [] \<and>
         statImpacts (calculations inp) = []"
  using assms by (simp add: calculations_empty emptyCohortResult_def)

theorem C5_empty_cohort_defaults_witness:
  "activeComps_of (COMPS (ex_inputs\<lparr>selectedComps := {}\<rparr>))
     (selectedComps (ex_inputs\<lparr>selectedComps := {}\<rparr>)) = [] \<and>
   baselineAAV (calculations (ex_inputs\<lparr>selectedComps := {}\<rparr>)) = Fin 0 \<and>
   baselineYears (calculations (ex_inputs\<lparr>selectedComps := {}\<rparr>)) = Fin 0 \<and>
   fairAAV (calculations (ex_inputs\<lparr>selectedComps := {}\<rparr>)) = Fin 0 \<and>
   fairYears (calculations (ex_inputs\<lparr>selectedComps := {}\<rparr>)) = Fin 0 \<and>
   aavMultiplier (calculations (ex_inputs\<lparr>selectedComps := {}\<rparr>)) = Fin 1 \<and>
   yearsAdjustment (calculations (ex_inputs\<lparr>selectedComps := {}\<rparr>)) = Fin 0 \<and>
   cohortStats (calculations (ex_inputs\<lparr>selectedComps := {}\<rparr>)) = Map.empty \<and>
   statComparisons (calculations (ex_inputs\<lparr>selectedComps := {}\<rparr>)) = [] \<and>
   statImpacts (calculations (ex_inputs\<lparr>selectedComps := {}\<rparr>)) = []"
  using C5_empty_cohort_defaults [OF ex_inputs_none_selected] ex_inputs_none_selected
  by blast

section \<open>Fair years\<close>

lemma fairYears_nonempty:
  "activeComps_of (COMPS inp) (selectedComps inp) \<noteq> [] \<Longrightarrow>
   fairYears (calculations inp) = fairYears_of (toNumber (cappedYears (calculations inp)))"
  by (simp add: calculations_def Let_def)

lemma fairYears_of_Fin:
  "fairYears_of (Fin c) = Fin (max 1 (of_int \<lfloor>c * 2 + 1 / 2\<rfloor> / 2))"
  by (simp add: fairYears_of_def jmax_def max_def)

lemma half_step_max: "2 * max 1 (of_int m / 2) \<in> (\<int> :: real set)"
proof (cases "(1::real) \<le> of_int m / 2")
  case True
  then have "2 * max 1 (of_int m / 2) = (of_int m :: real)" by (simp add: max_def)
  then show ?thesis by simp
next
  case False
  then have "2 * max 1 (of_int m / 2) = (2 :: real)" by (simp add: max_def)
  then show ?thesis by simp
qed

lemma fairYears_of_cases:
  assumes "fairYears_of capped = Fin y"
  shows "1 \<le> y \<and> 2 * y \<in> \<int>"
proof (cases capped)
  case (Fin c)
  with assms have y: "y = max 1 (of_int \<lfloor>c * 2 + 1 / 2\<rfloor> / 2)"
    by (simp add: fairYears_of_Fin)
  then have "1 \<le> y" by simp
  moreover from y have "2 * y \<in> \<int>" by (simp only: half_step_max)
  ultimately show ?thesis by blast
next
  case PInf
  with assms show ?thesis by (simp add: fairYears_of_def jmax_def infOf_def)
next
  case NInf
  with assms have "y = 1" by (simp add: fairYears_of_def jmax_def infOf_def)
  then show ?thesis by simp
next
  case NaN
  with assms show ?thesis by (simp add: fairYears_of_def jmax_def)
qed

lemma ex_inputs_fairYears: "fairYears (calculations ex_inputs) = Fin 5"
  by code_simp

lemma isFin_conv: "isFin x \<longleftrightarrow> (\<exists>v. x = Fin v)"
  by (cases x) simp_all

lemma clamp_isFin: "x \<noteq> NaN \<Longrightarrow> isFin (jmax (Fin lo) (jmin (Fin hi) x))"
  by (cases x) (simp_all add: jmax_def jmin_def)

lemma ageMultiplier_of_finite: "raw \<noteq> NaN \<Longrightarrow> isFin (ageMultiplier_of young raw)"
  by (cases raw) (simp_all add: ageMultiplier_of_def jmax_def jmin_def Let_def infOf_def)

lemma rawAgeMultiplier_of_finite: "isFin (rawAgeMultiplier_of pitcher (Fin d))"
  by (simp add: rawAgeMultiplier_of_def penaltyComponent_of_def benefitComponent_of_def
      jmax_def jsub_def Let_def)

lemma absoluteAgePenalty_of_finite: "isFin (absoluteAgePenalty_of pitcher (Fin a))"
  by (simp add: absoluteAgePenalty_of_def jge_def jmin_def jsub_def)

lemma performanceAdjustment_of_finite:
  "isFin (performanceAdjustment_of pitcher y (Fin m))"
  by (simp add: performanceAdjustment_of_def jmax_def jmin_def jsub_def Let_def)

lemma totalYearsAdjustment_of_finite:
  "isFin b \<Longrightarrow> isFin am \<Longrightarrow> isFin ap \<Longrightarrow> isFin pa \<Longrightarrow>
   isFin (totalYearsAdjustment_of adj b am ap pa)"
  by (cases b; cases am; cases ap; cases pa) (simp_all add: totalYearsAdjustment_of_def jsub_def)

lemma cappedYears_calculations:
  "activeComps_of (COMPS inp) (selectedComps inp) \<noteq> [] \<Longrightarrow>
   cappedYears (calculations inp) =
     Some (cappedYears_of
       (isVeryYoungHighPerformer_of (toNumber (PETE_STATS inp ''age'')) (aavMultiplier (calculations inp)))
       (baselineYears (calculations inp)) (yearsAdjustment (calculations inp)))"
  by (simp add: calculations_def Let_def)

lemma cappedYears_of_finite: "isFin b \<Longrightarrow> isFin t \<Longrightarrow> isFin (cappedYears_of young b t)"
  by (cases b; cases t) (simp_all add: cappedYears_of_def softCapLimit_of_def jmin_def)

lemma fairYears_finite:
  assumes ne: "activeComps_of (COMPS inp) (selectedComps inp) \<noteq> []"
    and b: "isFin (baselineYears (calculations inp))"
    and t: "isFin (yearsAdjustment (calculations inp))"
  shows "isFin (fairYears (calculations inp))"
proof -
  let ?c = "cappedYears_of
       (isVeryYoungHighPerformer_of (toNumber (PETE_STATS inp ''age'')) (aavMultiplier (calculations inp)))
       (baselineYears (calculations inp)) (yearsAdjustment (calculations inp))"
  from cappedYears_of_finite [OF b t, of "isVeryYoungHighPerformer_of
      (toNumber (PETE_STATS inp ''age'')) (aavMultiplier (calculations inp))"]
  obtain c where c: "?c = Fin c" by (auto simp: isFin_conv)
  have "fairYears (calculations inp) = fairYears_of ?c"
    by (simp add: fairYears_nonempty [OF ne] cappedYears_calculations [OF ne])
  then show ?thesis by (simp add: c fairYears_of_Fin)
qed

lemma yearsAdjustment_calculations:
  "activeComps_of (COMPS inp) (selectedComps inp) \<noteq> [] \<Longrightarrow>
   yearsAdjustment (calculations inp) =
     totalYearsAdjustment_of (adjustYears inp) (baselineYears (calculations inp))
       (toNumber (ageMultiplier (calculations inp)))
       (toNumber (absoluteAgePenalty (calculations inp)))
       (toNumber (performanceAdjustment (calculations inp)))"
  by (simp add: calculations_def Let_def)

lemma years_terms_calculations:
  assumes "activeComps_of (COMPS inp) (selectedComps inp) \<noteq> []"
  shows "ageMultiplier (calculations inp) =
           Some (ageMultiplier_of
             (isVeryYoungHighPerformer_of (toNumber (PETE_STATS inp ''age'')) (aavMultiplier (calculations inp)))
             (rawAgeMultiplier_of (isPitcherPlayer inp)
                (jsub (toNumber (PETE_STATS inp ''age'')) (toNumber (cohortSigningAge (calculations inp))))))"
    and "absoluteAgePenalty (calculations inp) =
           Some (absoluteAgePenalty_of (isPitcherPlayer inp) (toNumber (PETE_STATS inp ''age'')))"
    and "performanceAdjustment (calculations inp) =
           Some (performanceAdjustment_of (isPitcherPlayer inp)
             (jmax (Fin 0) (jneg (jsub (toNumber (PETE_STATS inp ''age''))
                (toNumber (cohortSigningAge (calculations inp))))))
             (aavMultiplier (calculations inp)))"
  using assms by (simp_all add: calculations_def Let_def)

lemma yearsAdjustment_finite:
  assumes ne: "activeComps_of (COMPS inp) (selectedComps inp) \<noteq> []"
    and b: "isFin (baselineYears (calculations inp))"
    and age: "PETE_STATS inp ''age'' = Some (Fin a)"
    and sage: "cohortSigningAge (calculations inp) = Some (Fin s)"
    and m: "isFin (aavMultiplier (calculations inp))"
  shows "isFin (yearsAdjustment (calculations inp))"
proof -
  from m obtain mv where mv: "aavMultiplier (calculations inp) = Fin mv"
    by (cases "aavMultiplier (calculations inp)") auto
  have d: "jsub (toNumber (PETE_STATS inp ''age'')) (toNumber (cohortSigningAge (calculations inp)))
      = Fin (a - s)"
    by (simp add: age sage jsub_def)
  have raw: "rawAgeMultiplier_of (isPitcherPlayer inp) (Fin (a - s)) \<noteq> NaN"
    using rawAgeMultiplier_of_finite [of "isPitcherPlayer inp" "a - s"] by auto
  show ?thesis
    unfolding yearsAdjustment_calculations [OF ne] years_terms_calculations [OF ne] d
    by (intro totalYearsAdjustment_of_finite)
       (simp_all add: b age mv ageMultiplier_of_finite [OF raw] absoluteAgePenalty_of_finite
          performanceAdjustment_of_finite)
qed

text \<open>
  Claim C4, as stated, fails on the empty cohort: the early return gives
  \<open>fairYears = 0\<close>, which is below 1.
\<close>

theorem C4_empty_cohort_counterexample:
  "\<not> jge (fairYears (calculations (ex_inputs\<lparr>selectedComps := {}\<rparr>))) (Fin 1)"
  by code_simp

text \<open>
  Claim C4, amended. For every non-empty cohort selection, all weights and toggles:
  when the returned \<open>fairYears\<close> is a finite number, it is at least 1 and an integer
  multiple of 0.5 (twice the value is an integer). It is a finite number whenever the
  baseline years and the years adjustment are (lemmas \<open>fairYears_finite\<close> and
  \<open>yearsAdjustment_finite\<close>).
\<close>

theorem C4_fairYears_floor_and_half_steps:
  assumes "activeComps_of (COMPS inp) (selectedComps inp) \<noteq> []"
    and "fairYears (calculations inp) = Fin y"
  shows "1 \<le> y \<and> 2 * y \<in> \<int>"
proof -
  from assms have "fairYears_of (toNumber (cappedYears (calculations inp))) = Fin y"
    by (simp add: fairYears_nonempty)
  then show ?thesis by (rule fairYears_of_cases)
qed

theorem C4_fairYears_floor_and_half_steps_witness:
  "activeComps_of (COMPS ex_inputs) (selectedComps ex_inputs) \<noteq> [] \<and>
   fairYears (calculations ex_inputs) = Fin 5 \<and>
   (1::real) \<le> 5 \<and> 2 * (5::real) \<in> \<int>"
  using C4_fairYears_floor_and_half_steps [OF ex_inputs_active ex_inputs_fairYears]
    ex_inputs_active ex_inputs_fairYears
  by blast

lemma jadd_zero_right: "jadd b (Fin 0) = b"
  by (cases b) simp_all

lemma cappedYears_no_adjustment: "cappedYears_of young b (Fin 0) = b"
  by (cases b) (simp_all add: cappedYears_of_def softCapLimit_of_def jmin_def jadd_zero_right)

lemma ex_years_off_active:
  "activeComps_of (COMPS (ex_inputs\<lparr>adjustYears := False\<rparr>))
     (selectedComps (ex_inputs\<lparr>adjustYears := False\<rparr>)) \<noteq> []"
  by code_simp

lemma ex_years_off_toggle: "\<not> adjustYears (ex_inputs\<lparr>adjustYears := False\<rparr>)"
  by simp

lemma ex_years_off_baseline:
  "baselineYears (calculations (ex_inputs\<lparr>adjustYears := False\<rparr>)) = Fin 5"
  by code_simp

text \<open>
  Claim C9, as stated, fails when the cohort's mean of contract years rounds below 1:
  for one comparable with 0 years and the toggle off, \<open>round(baselineYears \<times> 2) / 2\<close> is 0
  and \<open>fairYears\<close> is 1, by the floor \<^verbatim>\<open>Math.max(1, ...)\<close>.
\<close>

theorem C9_floor_counterexample:
  "fairYears (calculations
      (ex_inputs\<lparr>adjustYears := False, COMPS := [ex_comp\<lparr>years := Fin 0\<rparr>]\<rparr>))
   \<noteq> jdiv (jround (jmul (baselineYears (calculations
        (ex_inputs\<lparr>adjustYears := False, COMPS := [ex_comp\<lparr>years := Fin 0\<rparr>]\<rparr>)))
        (Fin 2))) (Fin 2)"
  by code_simp

text \<open>
  Claim C9, amended. For every non-empty cohort, when the "adjust years" toggle is off the
  total years adjustment is 0 and \<open>fairYears = max(1, round(baselineYears \<times> 2) / 2)\<close>:
  the baseline years rounded to the nearest half-year, floored at 1, with no age,
  penalty or performance term.
\<close>

theorem C9_years_toggle_off:
  assumes "activeComps_of (COMPS inp) (selectedComps inp) \<noteq> []"
    and "\<not> adjustYears inp"
  shows "yearsAdjustment (calculations inp) = Fin 0 \<and>
         fairYears (calculations inp) =
           jmax (Fin 1) (jdiv (jround (jmul (baselineYears (calculations inp)) (Fin 2))) (Fin 2))"
  using assms
  by (simp add: calculations_def Let_def totalYearsAdjustment_of_def cappedYears_no_adjustment
      fairYears_of_def)

theorem C9_years_toggle_off_witness:
  "activeComps_of (COMPS (ex_inputs\<lparr>adjustYears := False\<rparr>))
     (selectedComps (ex_inputs\<lparr>adjustYears := False\<rparr>)) \<noteq> [] \<and>
   \<not> adjustYears (ex_inputs\<lparr>adjustYears := False\<rparr>) \<and>
   yearsAdjustment (calculations (ex_inputs\<lparr>adjustYears := False\<rparr>)) = Fin 0 \<and>
   fairYears (calculations (ex_inputs\<lparr>adjustYears := False\<rparr>)) = Fin 5"
  using C9_years_toggle_off [OF ex_years_off_active ex_years_off_toggle]
    ex_years_off_active ex_years_off_baseline
  by (simp add: jmax_def)

section \<open>Inflation-adjusted baseline\<close>

lemma foldl_jadd_Fin:
  "\<forall>x\<in>set xs. isFin x \<Longrightarrow> foldl jadd (Fin a) xs = Fin (a + sum_list (map finVal xs))"
proof (induction xs arbitrary: a)
  case Nil
  then show ?case by simp
next
  case (Cons x xs)
  from Cons.prems obtain v where x: "x = Fin v" by (cases x) auto
  from Cons.prems have "\<forall>y\<in>set xs. isFin y" by simp
  from Cons.IH [OF this, of "a + v"] x show ?case by (simp add: add.assoc)
qed

lemma jsum_Fin: "\<forall>x\<in>set xs. isFin x \<Longrightarrow> jsum xs = Fin (sum_list (map finVal xs))"
  using foldl_jadd_Fin [of xs 0] by (simp add: jsum_def)

lemma inflationRate_of_Fin: "inflationRate_of (Fin p) = Fin (max 0 p / 100)"
  by (simp add: inflationRate_of_def jmax_def max_def)

lemma adjustedAAV_Fin:
  "AAV c = Fin a \<Longrightarrow> adjustedAAV (Fin r) c = Fin (a * (1 + r) ^ yearsSinceSigning (signedYear c))"
  by (simp add: adjustedAAV_def jpow_def Let_def)

lemma jdiv_lengthNum: "xs \<noteq> [] \<Longrightarrow> jdiv (Fin s) (lengthNum xs) = Fin (s / real (length xs))"
  by (simp add: lengthNum_def)

lemma baselineAAV_nonempty:
  "activeComps_of (COMPS inp) (selectedComps inp) \<noteq> [] \<Longrightarrow>
   baselineAAV (calculations inp) =
     baselineAAV_of (inflationPercent inp) (activeComps_of (COMPS inp) (selectedComps inp))"
  by (simp add: calculations_def Let_def)

lemma ex_inputs_active_list:
  "activeComps_of (COMPS ex_inputs) (selectedComps ex_inputs) = [ex_comp]"
  by (simp add: activeComps_of_def ex_inputs_def ex_comp_def)

lemma ex_comp_contract: "AAV ex_comp = Fin 20" "signedYear ex_comp = Some 2023"
  by (simp_all add: ex_comp_def)

lemma ex_inputs_inflation: "inflationPercent ex_inputs = Fin 4"
  by (simp add: ex_inputs_def)

text \<open>
  Claim C6, as stated, fails for a signing year that is present and 0: the test
  \<^verbatim>\<open>signedYear ? ... : 0\<close> takes 0 for absent, so the exponent is 0 and not
  \<open>max(0, 2025 - 0)\<close>. With AAV 20 and 4 percent the adjusted AAV and the baseline are 20.
\<close>

theorem C6_zero_year_counterexample:
  "baselineAAV (calculations (ex_inputs\<lparr>COMPS := [ex_comp\<lparr>signedYear := Some 0\<rparr>]\<rparr>))
     \<noteq> Fin (20 * (1 + 4 / 100) ^ nat (max 0 (2025 - 0)))"
proof -
  define x :: real where "x = (1 + 4 / 100) ^ nat (max 0 (2025 - 0))"
  have l: "baselineAAV (calculations (ex_inputs\<lparr>COMPS := [ex_comp\<lparr>signedYear := Some 0\<rparr>]\<rparr>))
      = Fin 20"
    by code_simp
  have "1 < x" unfolding x_def by (rule one_less_power) simp_all
  with l have "baselineAAV (calculations (ex_inputs\<lparr>COMPS := [ex_comp\<lparr>signedYear := Some 0\<rparr>]\<rparr>))
     \<noteq> Fin (20 * x)" by simp
  then show ?thesis unfolding x_def .
qed

text \<open>
  Claim C6, amended. For every non-empty cohort with finite AAVs and every inflation
  percentage \<open>p\<close> (the rate is \<open>r = max(0, p) / 100\<close>), each comparable's adjusted AAV is
  \<open>AAV \<times> (1 + r) ^ max(0, 2025 - signedYear)\<close>, with exponent 0 when the signing year
  is absent or 0, and \<open>baselineAAV\<close> is the arithmetic mean of the adjusted AAVs. For one
  comparable with AAV 20 signed in 2023 and 4 percent, both are 21.632 (the witness).
\<close>

theorem C6_inflation_adjusted_baseline:
  assumes act: "activeComps_of (COMPS inp) (selectedComps inp) = active"
    and ne: "active \<noteq> []"
    and fin: "\<forall>c\<in>set active. isFin (AAV c)"
    and infl: "inflationPercent inp = Fin p"
  shows "adjustedAAVs_of (inflationPercent inp) active =
           map (\<lambda>c. Fin (finVal (AAV c) * (1 + max 0 p / 100) ^
                  (case signedYear c of None \<Rightarrow> 0
                   | Some y \<Rightarrow> if y = 0 then 0 else nat (max 0 (2025 - y))))) active
         \<and> baselineAAV (calculations inp) =
           Fin (sum_list (map (\<lambda>c. finVal (AAV c) * (1 + max 0 p / 100) ^
                  (case signedYear c of None \<Rightarrow> 0
                   | Some y \<Rightarrow> if y = 0 then 0 else nat (max 0 (2025 - y)))) active)
                / real (length active))"
proof -
  let ?e = "\<lambda>c. (case signedYear c of None \<Rightarrow> 0
                   | Some y \<Rightarrow> if y = 0 then 0 else nat (max 0 (2025 - y)))"
  let ?f = "\<lambda>c. finVal (AAV c) * (1 + max 0 p / 100) ^ ?e c"
  have e: "yearsSinceSigning (signedYear c) = ?e c" for c
    by (simp add: yearsSinceSigning_def presentYear_const_def split: option.split)
  have one: "adjustedAAV (Fin (max 0 p / 100)) c = Fin (?f c)" if "c \<in> set active" for c
  proof -
    from fin that obtain a where a: "AAV c = Fin a" by (cases "AAV c") auto
    from adjustedAAV_Fin [OF a, of "max 0 p / 100"] a e [of c] show ?thesis by simp
  qed
  have adj: "adjustedAAVs_of (inflationPercent inp) active = map (\<lambda>c. Fin (?f c)) active"
    using one by (simp add: adjustedAAVs_of_def infl inflationRate_of_Fin)
  have "jsum (map (\<lambda>c. Fin (?f c)) active) = Fin (sum_list (map ?f active))"
    using jsum_Fin [of "map (\<lambda>c. Fin (?f c)) active"] by (simp add: comp_def)
  with adj ne have "baselineAAV_of (inflationPercent inp) active
      = Fin (sum_list (map ?f active) / real (length active))"
    by (simp add: baselineAAV_of_def jdiv_lengthNum)
  with act ne baselineAAV_nonempty [of inp] have
    "baselineAAV (calculations inp) = Fin (sum_list (map ?f active) / real (length active))"
    by simp
  with adj show ?thesis by blast
qed

theorem C6_inflation_adjusted_baseline_witness:
  "activeComps_of (COMPS ex_inputs) (selectedComps ex_inputs) = [ex_comp] \<and>
   isFin (AAV ex_comp) \<and> inflationPercent ex_inputs = Fin 4 \<and>
   adjustedAAVs_of (inflationPercent ex_inputs) [ex_comp] = [Fin 21.632] \<and>
   baselineAAV (calculations ex_inputs) = Fin 21.632"
  using C6_inflation_adjusted_baseline [of ex_inputs "[ex_comp]" 4] ex_inputs_active_list
  by (simp add: ex_comp_contract ex_inputs_inflation power2_eq_square)

section \<open>Ratio bounds of the comparator\<close>

lemma clamp_Fin: "lo \<le> hi \<Longrightarrow> jmax (Fin lo) (jmin (Fin hi) (Fin x)) = Fin (max lo (min hi x))"
  by (simp add: jmax_def jmin_def max_def min_def)

lemma ratio_of_Def_BsR:
  "k = ''fg_Def'' \<or> k = ''fg_BsR'' \<Longrightarrow>
   ratio_of k hb (Fin p) (Fin c) = Fin (max 0.5 (min 2.0 (1 + ((p - c) / 10) * 0.2)))"
  by (simp add: ratio_of_def Let_def jsub_def clamp_Fin)

lemma ratio_of_higher:
  "\<not> (k = ''fg_Def'' \<or> k = ''fg_BsR'') \<Longrightarrow>
   ratio_of k True (Fin p) (Fin c) =
     Fin (max 0.1 (min 10 (if \<bar>c\<bar> < 0.001 then (if 0 < p then 1.1 else if p < 0 then 0.9 else 1)
                           else p / c)))"
  by (auto simp add: ratio_of_def Let_def jsub_def clamp_Fin jgt_def)

lemma ratio_of_lower:
  "\<not> (k = ''fg_Def'' \<or> k = ''fg_BsR'') \<Longrightarrow>
   ratio_of k False (Fin p) (Fin c) =
     Fin (max 0.1 (min 10 (if \<bar>p\<bar> < 0.001 then (if 0 < c then 1.1 else if c < 0 then 0.9 else 1)
                           else c / p)))"
  by (auto simp add: ratio_of_def Let_def jsub_def clamp_Fin jgt_def)

lemma ratio_of_Fin_bounds:
  "isFin (ratio_of k hb (Fin p) (Fin c)) \<and>
   (if k = ''fg_Def'' \<or> k = ''fg_BsR''
    then 0.5 \<le> finVal (ratio_of k hb (Fin p) (Fin c)) \<and> finVal (ratio_of k hb (Fin p) (Fin c)) \<le> 2.0
    else 0.1 \<le> finVal (ratio_of k hb (Fin p) (Fin c)) \<and> finVal (ratio_of k hb (Fin p) (Fin c)) \<le> 10)"
proof (cases "k = ''fg_Def'' \<or> k = ''fg_BsR''")
  case True
  then show ?thesis by (simp add: ratio_of_Def_BsR)
next
  case False
  then show ?thesis
    by (cases hb) (simp_all add: ratio_of_higher ratio_of_lower)
qed

lemma statComparisons_calculations:
  "statComparisons (calculations inp) =
     (if activeComps_of (COMPS inp) (selectedComps inp) = [] then []
      else statComparisons_of (activeStatConfig (isPitcherPlayer inp)) (PETE_STATS inp)
             (cohortStats_of (activeStatConfig (isPitcherPlayer inp))
                (activeComps_of (COMPS inp) (selectedComps inp)))
             (customWeights inp))"
  by (simp add: calculations_def Let_def emptyCohortResult_def)

lemma statComparisons_members:
  assumes "sc \<in> set (statComparisons (calculations inp))"
  shows "\<exists>pete cstats weights entry. sc = statComparison pete cstats weights entry"
proof (cases "activeComps_of (COMPS inp) (selectedComps inp) = []")
  case True
  with assms show ?thesis by (simp add: statComparisons_calculations)
next
  case False
  with assms have "sc \<in> statComparison (PETE_STATS inp)
             (cohortStats_of (activeStatConfig (isPitcherPlayer inp))
                (activeComps_of (COMPS inp) (selectedComps inp)))
             (customWeights inp) ` set (activeStatConfig (isPitcherPlayer inp))"
    by (simp add: statComparisons_calculations statComparisons_of_def)
  then show ?thesis by blast
qed

lemma statComparison_ratio:
  "ratio (statComparison pete cstats weights entry) =
     ratio_of (key (statComparison pete cstats weights entry)) (higherBetter (snd entry))
       (peteValue (statComparison pete cstats weights entry))
       (cohortValue (statComparison pete cstats weights entry))"
  by (simp add: statComparison_def Let_def)

text \<open>
  For every comparison the valuation returns whose subject and cohort values are finite
  numbers, the ratio is a finite number within \<open>[0.5, 2.0]\<close> for \<open>fg_Def\<close> and \<open>fg_BsR\<close>
  and within \<open>[0.1, 10]\<close> for every other statistic, higher-is-better or
  lower-is-better.
\<close>

lemma ratio_bounds_finite_values:
  assumes mem: "sc \<in> set (statComparisons (calculations inp))"
    and p: "isFin (peteValue sc)"
    and c: "isFin (cohortValue sc)"
  shows "isFin (ratio sc) \<and>
         (if key sc = ''fg_Def'' \<or> key sc = ''fg_BsR''
          then 0.5 \<le> finVal (ratio sc) \<and> finVal (ratio sc) \<le> 2.0
          else 0.1 \<le> finVal (ratio sc) \<and> finVal (ratio sc) \<le> 10)"
proof -
  from mem obtain pete cstats weights entry
    where sc: "sc = statComparison pete cstats weights entry"
    using statComparisons_members by blast
  from p obtain pv where pv: "peteValue sc = Fin pv" by (cases "peteValue sc") auto
  from c obtain cv where cv: "cohortValue sc = Fin cv" by (cases "cohortValue sc") auto
  have "ratio sc = ratio_of (key sc) (higherBetter (snd entry)) (peteValue sc) (cohortValue sc)"
    unfolding sc by (rule statComparison_ratio)
  then have r: "ratio sc = ratio_of (key sc) (higherBetter (snd entry)) (Fin pv) (Fin cv)"
    by (simp only: pv cv)
  show ?thesis unfolding r by (rule ratio_of_Fin_bounds)
qed


lemma ex_comparisons_nonempty: "statComparisons (calculations ex_inputs) \<noteq> []"
  by code_simp

lemma ex_first_comparison:
  "isFin (peteValue (hd (statComparisons (calculations ex_inputs))))"
  "isFin (cohortValue (hd (statComparisons (calculations ex_inputs))))"
  "key (hd (statComparisons (calculations ex_inputs))) = ''fg_RBI''"
  by code_simp+

lemma ex_ratio_bounds_finite_values:
  "hd (statComparisons (calculations ex_inputs)) \<in> set (statComparisons (calculations ex_inputs)) \<and>
   isFin (peteValue (hd (statComparisons (calculations ex_inputs)))) \<and>
   isFin (cohortValue (hd (statComparisons (calculations ex_inputs)))) \<and>
   isFin (ratio (hd (statComparisons (calculations ex_inputs)))) \<and>
   0.1 \<le> finVal (ratio (hd (statComparisons (calculations ex_inputs)))) \<and>
   finVal (ratio (hd (statComparisons (calculations ex_inputs)))) \<le> 10"
  using ratio_bounds_finite_values [OF hd_in_set [OF ex_comparisons_nonempty] ex_first_comparison(1)
      ex_first_comparison(2)]
    hd_in_set [OF ex_comparisons_nonempty] ex_first_comparison
  by simp

text \<open>
  Claim C8 says that the ratio of every tracked statistic lies within \<open>[0.1, 10]\<close>, or
  \<open>[0.5, 2.0]\<close> for \<open>fg_Def\<close> and \<open>fg_BsR\<close>, for every pair of values. The clamps give
  that for finite values (lemma \<open>ratio_bounds_finite_values\<close>). But the subject's home
  runs are read with no default (claim C7): for a subject without \<^verbatim>\<open>HRperPA\<close> the
  comparison \<open>fg_HR\<close> has the subject's value \<open>NaN\<close> against the cohort's 20, the ratio is
  \<open>NaN / 20\<close>, and \<^verbatim>\<open>Math.max(0.1, Math.min(10, NaN))\<close> is \<open>NaN\<close>, which is neither at
  least 0.1 nor at most 10.
\<close>

theorem C8_missing_HR_ratio_out_of_range:
  "key (statComparisons (calculations
      (ex_inputs\<lparr>PETE_STATS := (ex_hitterStats 125 10)(''HRperPA'' := None)\<rparr>)) ! 1) = ''fg_HR'' \<and>
   cohortValue (statComparisons (calculations
      (ex_inputs\<lparr>PETE_STATS := (ex_hitterStats 125 10)(''HRperPA'' := None)\<rparr>)) ! 1) = Fin 20 \<and>
   \<not> jle (Fin 0.1) (ratio (statComparisons (calculations
      (ex_inputs\<lparr>PETE_STATS := (ex_hitterStats 125 10)(''HRperPA'' := None)\<rparr>)) ! 1)) \<and>
   \<not> jle (ratio (statComparisons (calculations
      (ex_inputs\<lparr>PETE_STATS := (ex_hitterStats 125 10)(''HRperPA'' := None)\<rparr>)) ! 1)) (Fin 10)"
  by code_simp

lemma statImpactsLoop_depends_on_ratio_weight:
  assumes "map ratio scs = map ratio scs'" and "map weight scs = map weight scs'"
  shows "map contribution (fst (statImpactsLoop bAAV ws tw scs)) =
           map contribution (fst (statImpactsLoop bAAV ws tw scs')) \<and>
         map aavImpact (fst (statImpactsLoop bAAV ws tw scs)) =
           map aavImpact (fst (statImpactsLoop bAAV ws tw scs')) \<and>
         snd (statImpactsLoop bAAV ws tw scs) = snd (statImpactsLoop bAAV ws tw scs')"
  using assms
proof (induction scs arbitrary: scs' ws tw)
  case Nil
  then show ?case by simp
next
  case (Cons sc rest)
  from Cons.prems obtain sc' rest' where s: "scs' = sc' # rest'" by (cases scs') auto
  with Cons.prems have h: "ratio sc = ratio sc'" "weight sc = weight sc'"
    "map ratio rest = map ratio rest'" "map weight rest = map weight rest'"
    by simp_all
  from Cons.IH [OF h(3) h(4)] show ?case
    by (simp add: s h(1) h(2) Let_def)
qed

lemma statKeyOf_Def_BsR: "statKeyOf ''fg_Def'' = ''fg_Def''" "statKeyOf ''fg_BsR'' = ''fg_BsR''"
  by (simp_all add: statKeyOf_def STAT_KEY_MAP_def)

lemma orZero_Fin: "orZero (Some (Fin x)) = Fin x"
  by (simp add: orZero_def)

lemma statComparison_Def:
  "ratio (statComparison (pete(''fg_Def'' := Some (Fin v))) (cstats(''fg_Def'' \<mapsto> Fin w))
            weights (''fg_Def'', cfg))
   = Fin (max 0.5 (min 2.0 (1 + ((v - w) / 10) * 0.2)))"
  by (simp add: statComparison_def Let_def statKeyOf_Def_BsR peteValue_of_def
      cohortValue_of_def orZero_Fin ratio_of_Def_BsR)

lemma statComparison_BsR:
  "ratio (statComparison (pete(''fg_BsR'' := Some (Fin v))) (cstats(''fg_BsR'' \<mapsto> Fin w))
            weights (''fg_BsR'', cfg))
   = Fin (max 0.5 (min 2.0 (1 + ((v - w) / 10) * 0.2)))"
  by (simp add: statComparison_def Let_def statKeyOf_Def_BsR peteValue_of_def
      cohortValue_of_def orZero_Fin ratio_of_Def_BsR)

lemma statComparison_Def_BsR:
  assumes "k = ''fg_Def'' \<or> k = ''fg_BsR''"
  shows "ratio (statComparison (pete(k := Some (Fin v))) (cstats(k \<mapsto> Fin w)) weights (k, cfg))
         = Fin (max 0.5 (min 2.0 (1 + ((v - w) / 10) * 0.2)))"
  using assms statComparison_Def statComparison_BsR by blast

text \<open>
  Claim C10. For \<open>fg_Def\<close> and \<open>fg_BsR\<close> the comparator's ratio depends only on the
  difference of the subject's and the cohort's value: shifting both values \<open>v\<close> and \<open>w\<close>
  by the same constant \<open>c\<close> gives the identical ratio, which is
  \<open>clamp(1 + ((v - w) / 10) \<times> 0.2, 0.5, 2.0)\<close>. The contribution and the dollar impact
  are computed from the ratios and the weights alone (lemma
  \<open>statImpactsLoop_depends_on_ratio_weight\<close>), so they are identical too. Finite values
  are exact reals here.
\<close>

theorem C10_def_bsr_shift_invariant:
  assumes "k = ''fg_Def'' \<or> k = ''fg_BsR''"
  shows "ratio (statComparison (pete(k := Some (Fin (v + c)))) (cstats(k \<mapsto> Fin (w + c)))
                  weights (k, cfg))
         = ratio (statComparison (pete(k := Some (Fin v))) (cstats(k \<mapsto> Fin w)) weights (k, cfg))
       \<and> ratio (statComparison (pete(k := Some (Fin v))) (cstats(k \<mapsto> Fin w)) weights (k, cfg))
         = Fin (max 0.5 (min 2.0 (1 + ((v - w) / 10) * 0.2)))"
proof -
  have "(v + c) - (w + c) = v - w" by simp
  with statComparison_Def_BsR [OF assms, of pete "v + c" cstats "w + c" weights cfg]
    statComparison_Def_BsR [OF assms, of pete v cstats w weights cfg]
  show ?thesis by (simp only:)
qed



theorem C10_def_bsr_shift_invariant_witness:
  "(''fg_Def'' = ''fg_Def'' \<or> ''fg_Def'' = ''fg_BsR'') \<and>
   ratio (statComparison ((ex_hitterStats 125 10)(''fg_Def'' := Some (Fin (2 + 5))))
            (Map.empty(''fg_Def'' \<mapsto> Fin (- 3 + 5))) (\<lambda>k. Some (Fin 1))
            (''fg_Def'', mkConfig ''Def'' True 0.1 1 ''runs''))
   = ratio (statComparison ((ex_hitterStats 125 10)(''fg_Def'' := Some (Fin 2)))
            (Map.empty(''fg_Def'' \<mapsto> Fin (- 3))) (\<lambda>k. Some (Fin 1))
            (''fg_Def'', mkConfig ''Def'' True 0.1 1 ''runs'')) \<and>
   ratio (statComparison ((ex_hitterStats 125 10)(''fg_Def'' := Some (Fin 2)))
            (Map.empty(''fg_Def'' \<mapsto> Fin (- 3))) (\<lambda>k. Some (Fin 1))
            (''fg_Def'', mkConfig ''Def'' True 0.1 1 ''runs''))
   = Fin 1.1"
  using C10_def_bsr_shift_invariant [of "''fg_Def''" "ex_hitterStats 125 10" 2 5 Map.empty "- 3"
      "\<lambda>k. Some (Fin 1)" "mkConfig ''Def'' True 0.1 1 ''runs''"]
  by simp

section \<open>Missing statistics\<close>

lemma orZero_missing: "orZero None = Fin 0" "orZero (Some NaN) = Fin 0"
  by (simp_all add: orZero_def)

lemma peteValue_of_missing:
  "statKey \<noteq> ''HR'' \<Longrightarrow> pete statKey = None \<Longrightarrow> peteValue_of pete statKey = Fin 0"
  by (simp add: peteValue_of_def orZero_def)

lemma cohortValue_of_missing:
  "statKey \<noteq> ''HR'' \<Longrightarrow> cstats statKey = None \<Longrightarrow> cohortValue_of cstats statKey = Fin 0"
  by (simp add: cohortValue_of_def orZero_def)

lemma cohort_summand_missing:
  "preSigningStats c statKey = None \<Longrightarrow> orZero (preSigningStats c statKey) = Fin 0"
  "preSigningStats c ''HRperPA'' = None \<Longrightarrow> jround (orZero (preSigningStats c ''HRperPA'')) = Fin 0"
  by (simp_all add: orZero_def)

lemma peteValue_of_HR_missing: "pete ''HRperPA'' = None \<Longrightarrow> peteValue_of pete ''HR'' = NaN"
  by (simp add: peteValue_of_def)

text \<open>
  Claim C7 says that a missing statistic counts as 0 for the subject and for the cohort,
  the home runs included. The code does so for every field of the cohort and for every
  field of the subject but the home runs, which are \<^verbatim>\<open>Math.round(PETE_STATS.HRperPA)\<close>
  with no \<^verbatim>\<open>|| 0\<close>: for a subject without that field the second comparison, \<open>fg_HR\<close>,
  has the subject's value \<open>NaN\<close>, not 0, and its ratio is \<open>NaN\<close> as well.
\<close>

theorem C7_missing_subject_HR_is_NaN:
  "key (statComparisons (calculations
      (ex_inputs\<lparr>PETE_STATS := (ex_hitterStats 125 10)(''HRperPA'' := None)\<rparr>)) ! 1) = ''fg_HR'' \<and>
   peteValue (statComparisons (calculations
      (ex_inputs\<lparr>PETE_STATS := (ex_hitterStats 125 10)(''HRperPA'' := None)\<rparr>)) ! 1) = NaN \<and>
   ratio (statComparisons (calculations
      (ex_inputs\<lparr>PETE_STATS := (ex_hitterStats 125 10)(''HRperPA'' := None)\<rparr>)) ! 1) = NaN"
  by code_simp

section \<open>The aggregate multiplier\<close>

lemma statImpactsLoop_totals:
  assumes "\<forall>sc\<in>set scs. isFin (ratio sc) \<and> isFin (toNumber (weight sc))"
  shows "snd (statImpactsLoop bAAV (Fin ws) (Fin tw) scs) =
           (Fin (ws + sum_list (map (\<lambda>sc. finVal (ratio sc) * finVal (toNumber (weight sc))) scs)),
            Fin (tw + sum_list (map (\<lambda>sc. finVal (toNumber (weight sc))) scs)))"
  using assms
proof (induction scs arbitrary: ws tw)
  case Nil
  then show ?case by simp
next
  case (Cons sc rest)
  from Cons.prems obtain r where r: "ratio sc = Fin r" by (cases "ratio sc") auto
  from Cons.prems obtain w where w: "toNumber (weight sc) = Fin w"
    by (cases "toNumber (weight sc)") auto
  from Cons.prems have rest: "\<forall>x\<in>set rest. isFin (ratio x) \<and> isFin (toNumber (weight x))"
    by simp
  show ?case
    using Cons.IH [OF rest, of "ws + r * w" "tw + w"] r w
    by (simp add: Let_def add.assoc)
qed

lemma rawMultiplier_Fin:
  assumes fin: "\<forall>sc\<in>set scs. isFin (ratio sc) \<and> isFin (toNumber (weight sc))"
    and nz: "sum_list (map (\<lambda>sc. finVal (toNumber (weight sc))) scs) \<noteq> 0"
  shows "jdiv (weightedSum_of bAAV scs) (totalWeight_of bAAV scs) =
           Fin (sum_list (map (\<lambda>sc. finVal (ratio sc) * finVal (toNumber (weight sc))) scs)
                / sum_list (map (\<lambda>sc. finVal (toNumber (weight sc))) scs))"
  using statImpactsLoop_totals [OF fin, of bAAV 0 0] nz
  by (simp add: weightedSum_of_def totalWeight_of_def)

lemma aavMultiplier_of_enabled_bounds:
  assumes "raw \<noteq> NaN"
  shows "isFin (aavMultiplier_of True raw) \<and> 0.5 \<le> finVal (aavMultiplier_of True raw)
         \<and> finVal (aavMultiplier_of True raw) \<le> 2"
  using assms
  by (cases raw)
     (simp_all add: aavMultiplier_of_def scaledMultiplier_of_def sensitivityMultiplier_def
        jsub_def jmax_def jmin_def infOf_def)

lemma aavMultiplier_of_disabled: "aavMultiplier_of False raw = Fin 1"
  by (simp add: aavMultiplier_of_def)

lemma aavMultiplier_of_NaN: "aavMultiplier_of True NaN = NaN"
  by (simp add: aavMultiplier_of_def scaledMultiplier_of_def sensitivityMultiplier_def
        jsub_def jmax_def jmin_def)

lemma fairAAV_product:
  "activeComps_of (COMPS inp) (selectedComps inp) \<noteq> [] \<Longrightarrow>
   fairAAV (calculations inp) = jmul (baselineAAV (calculations inp)) (aavMultiplier (calculations inp))"
  by (simp add: calculations_def Let_def)

lemma aavMultiplier_toggle_off:
  "activeComps_of (COMPS inp) (selectedComps inp) \<noteq> [] \<Longrightarrow> \<not> adjustAAV inp \<Longrightarrow>
   aavMultiplier (calculations inp) = Fin 1"
  by (simp add: calculations_def Let_def aavMultiplier_of_disabled)

lemma aavMultiplier_calculations:
  "activeComps_of (COMPS inp) (selectedComps inp) \<noteq> [] \<Longrightarrow>
   aavMultiplier (calculations inp) =
     aavMultiplier_of (adjustAAV inp)
       (jdiv (weightedSum_of (baselineAAV (calculations inp)) (statComparisons (calculations inp)))
             (totalWeight_of (baselineAAV (calculations inp)) (statComparisons (calculations inp))))"
  by (simp add: calculations_def Let_def)

lemma aavMultiplier_bounds:
  assumes ne: "activeComps_of (COMPS inp) (selectedComps inp) \<noteq> []"
    and adj: "adjustAAV inp"
    and fin: "\<forall>sc\<in>set (statComparisons (calculations inp)).
                isFin (ratio sc) \<and> isFin (toNumber (weight sc))"
    and nz: "sum_list (map (\<lambda>sc. finVal (toNumber (weight sc)))
               (statComparisons (calculations inp))) \<noteq> 0"
  shows "isFin (aavMultiplier (calculations inp)) \<and>
         0.5 \<le> finVal (aavMultiplier (calculations inp)) \<and>
         finVal (aavMultiplier (calculations inp)) \<le> 2"
proof -
  have "jdiv (weightedSum_of (baselineAAV (calculations inp)) (statComparisons (calculations inp)))
             (totalWeight_of (baselineAAV (calculations inp)) (statComparisons (calculations inp)))
        \<noteq> NaN"
    by (simp add: rawMultiplier_Fin [OF fin nz])
  from aavMultiplier_of_enabled_bounds [OF this] show ?thesis
    by (simp add: aavMultiplier_calculations [OF ne] adj)
qed

lemma ex_inputs_multiplier_in_range:
  "isFin (aavMultiplier (calculations ex_inputs)) \<and>
   0.5 \<le> finVal (aavMultiplier (calculations ex_inputs)) \<and>
   finVal (aavMultiplier (calculations ex_inputs)) \<le> 2"
proof (rule aavMultiplier_bounds [OF ex_inputs_active])
  show "adjustAAV ex_inputs" by (simp add: ex_inputs_def)
  show "\<forall>sc\<in>set (statComparisons (calculations ex_inputs)).
          isFin (ratio sc) \<and> isFin (toNumber (weight sc))"
    by code_simp
  show "sum_list (map (\<lambda>sc. finVal (toNumber (weight sc)))
          (statComparisons (calculations ex_inputs))) \<noteq> 0"
    by code_simp
qed

text \<open>
  Claim C3 says that with the toggle on the multiplier lies in \<open>[0.50, 2.0]\<close> for every
  weight assignment. The lemmas above give that for finite weights whose total is not 0,
  the value 1 with the toggle off, and \<open>fairAAV = baselineAAV \<times> aavMultiplier\<close>. The code
  has no guard for a total weight of 0: with every weight at 0, which the sliders allow,
  \<^verbatim>\<open>weightedSum / totalWeight\<close> is \<open>0 / 0\<close>, and the clamp of \<open>NaN\<close> is \<open>NaN\<close>.
\<close>

theorem C3_zero_weights_multiplier_NaN:
  "aavMultiplier (calculations (ex_inputs\<lparr>customWeights := (\<lambda>k. Some (Fin 0))\<rparr>)) = NaN"
  by code_simp

section \<open>Per-stat dollar impacts\<close>

lemma statImpacts_first:
  "aavImpact (hd (statImpacts_of bAAV (sc # rest))) =
     jdiv (jmul bAAV (jmul (jsub (ratio sc) (Fin 1)) (toNumber (weight sc))))
          (jadd (Fin 0) (toNumber (weight sc)))"
  by (simp add: statImpacts_of_def Let_def)

lemma statImpactsLoop_nth:
  assumes "\<forall>sc\<in>set scs. isFin (ratio sc) \<and> isFin (toNumber (weight sc))"
    and "i < length scs"
  shows "aavImpact (fst (statImpactsLoop (Fin b) (Fin ws) (Fin tw) scs) ! i) =
           jdiv (Fin (b * ((finVal (ratio (scs ! i)) - 1) * finVal (toNumber (weight (scs ! i))))))
                (Fin (tw + sum_list (map (\<lambda>sc. finVal (toNumber (weight sc))) (take (Suc i) scs))))"
  using assms
proof (induction scs arbitrary: i ws tw)
  case Nil
  then show ?case by simp
next
  case (Cons sc rest)
  from Cons.prems obtain r where r: "ratio sc = Fin r" by (cases "ratio sc") auto
  from Cons.prems obtain w where w: "toNumber (weight sc) = Fin w"
    by (cases "toNumber (weight sc)") auto
  from Cons.prems have rest: "\<forall>x\<in>set rest. isFin (ratio x) \<and> isFin (toNumber (weight x))"
    by simp
  show ?case
  proof (cases i)
    case 0
    then show ?thesis using r w by (simp add: Let_def jsub_def)
  next
    case (Suc j)
    with Cons.prems have j: "j < length rest" by simp
    from Cons.IH [OF rest j, of "ws + r * w" "tw + w"] Suc r w
    show ?thesis by (simp add: Let_def add.assoc)
  qed
qed

text \<open>
  Claim C2 says that every naive impact is \<open>baselineAAV \<times> ((ratio - 1) \<times> weight)\<close> over the
  total of all weights. The callback divides by \<^verbatim>\<open>totalWeight\<close> while it is still being
  accumulated, so the denominator of a statistic is the sum of the weights up to it
  (lemma \<open>statImpactsLoop_nth\<close>). In the example the first impact is
  \<open>21.632 \<times> 0.25 \<times> 1 / 1 = 5.408\<close>; over the total weight 14 it would be \<open>5.408 / 14\<close>.
\<close>

theorem C2_first_impact_running_total:
  "aavImpact (hd (naiveStatImpacts ex_inputs)) = Fin 5.408 \<and>
   jdiv (jmul (baselineAAV (calculations ex_inputs)) (contribution (hd (naiveStatImpacts ex_inputs))))
        (totalWeight_of (baselineAAV (calculations ex_inputs)) (statComparisons (calculations ex_inputs)))
     = Fin (5.408 / 14)"
  by code_simp

lemma jmul_Fin_right: "isFin x \<Longrightarrow> jmul x (Fin k) = Fin (finVal x * k)"
  by (cases x) simp_all

lemma jsum_scaled:
  assumes "\<forall>x\<in>set xs. isFin x"
  shows "jsum (map (\<lambda>x. jmul x (Fin k)) xs) = Fin (sum_list (map finVal xs) * k)"
proof -
  have eq: "map (\<lambda>x. jmul x (Fin k)) xs = map (\<lambda>x. Fin (finVal x * k)) xs"
    using assms by (simp add: jmul_Fin_right)
  have "jsum (map (\<lambda>x. Fin (finVal x * k)) xs) = Fin (sum_list (map (\<lambda>x. finVal x * k) xs))"
    using jsum_Fin [of "map (\<lambda>x. Fin (finVal x * k)) xs"] by (simp add: comp_def)
  then show ?thesis by (simp add: eq sum_list_mult_const)
qed

lemma impactSum_scaled:
  "impactSum (scaledStatImpacts_of s impacts) = jsum (map (\<lambda>x. jmul x s) (map aavImpact impacts))"
  by (simp add: impactSum_def scaledStatImpacts_of_def comp_def)

lemma scaled_sum_is_difference:
  assumes fin: "\<forall>i\<in>set impacts. isFin (aavImpact i)"
    and nz: "impactSum impacts \<noteq> Fin 0"
  shows "impactSum (scaledStatImpacts_of (impactScale_of (impactSum impacts) (Fin d)) impacts) = Fin d"
proof -
  have f: "\<forall>x\<in>set (map aavImpact impacts). isFin x" using fin by simp
  let ?s = "sum_list (map finVal (map aavImpact impacts))"
  have s: "impactSum impacts = Fin ?s"
    using jsum_Fin [OF f] by (simp add: impactSum_def)
  with nz have "?s \<noteq> 0" by simp
  then have sc: "impactScale_of (impactSum impacts) (Fin d) = Fin (d / ?s)"
    by (simp add: impactScale_of_def s)
  show ?thesis
    using jsum_scaled [OF f, of "d / ?s"] \<open>?s \<noteq> 0\<close>
    by (simp add: impactSum_scaled sc)
qed

lemma jmul_one_right: "jmul a (Fin 1) = a"
  by (cases a) (simp_all add: infOf_def)

lemma degenerate_scale:
  "impactScale_of (Fin 0) d = Fin 1"
  "map aavImpact (scaledStatImpacts_of (Fin 1) impacts) = map aavImpact impacts"
  by (simp_all add: impactScale_of_def scaledStatImpacts_of_def jmul_one_right comp_def)

lemma statImpacts_calculations:
  "activeComps_of (COMPS inp) (selectedComps inp) \<noteq> [] \<Longrightarrow>
   statImpacts (calculations inp) =
     scaledStatImpacts_of
       (impactScale_of (impactSum (naiveStatImpacts inp))
          (jsub (fairAAV (calculations inp)) (baselineAAV (calculations inp))))
       (naiveStatImpacts inp)"
  by (simp add: calculations_def naiveStatImpacts_def impactSum_def Let_def)

lemma scaled_impacts_sum_calculations:
  assumes ne: "activeComps_of (COMPS inp) (selectedComps inp) \<noteq> []"
    and fin: "\<forall>i\<in>set (naiveStatImpacts inp). isFin (aavImpact i)"
    and nz: "impactSum (naiveStatImpacts inp) \<noteq> Fin 0"
    and d: "isFin (jsub (fairAAV (calculations inp)) (baselineAAV (calculations inp)))"
  shows "impactSum (statImpacts (calculations inp)) =
           jsub (fairAAV (calculations inp)) (baselineAAV (calculations inp))"
proof -
  from d obtain x where x: "jsub (fairAAV (calculations inp)) (baselineAAV (calculations inp)) = Fin x"
    by (cases "jsub (fairAAV (calculations inp)) (baselineAAV (calculations inp))") auto
  show ?thesis
    using scaled_sum_is_difference [OF fin nz, of x]
    by (simp add: statImpacts_calculations [OF ne] x)
qed

lemma degenerate_impacts_calculations:
  assumes ne: "activeComps_of (COMPS inp) (selectedComps inp) \<noteq> []"
    and z: "impactSum (naiveStatImpacts inp) = Fin 0"
  shows "map aavImpact (statImpacts (calculations inp)) = map aavImpact (naiveStatImpacts inp)"
  by (simp add: statImpacts_calculations [OF ne] z degenerate_scale)

lemma ex_scaled_sum_matches:
  "impactSum (statImpacts (calculations (ex_inputs\<lparr>PETE_STATS := ex_hitterStats 150 10\<rparr>))) =
     jsub (fairAAV (calculations (ex_inputs\<lparr>PETE_STATS := ex_hitterStats 150 10\<rparr>)))
          (baselineAAV (calculations (ex_inputs\<lparr>PETE_STATS := ex_hitterStats 150 10\<rparr>)))"
proof (rule scaled_impacts_sum_calculations)
  show "activeComps_of (COMPS (ex_inputs\<lparr>PETE_STATS := ex_hitterStats 150 10\<rparr>))
          (selectedComps (ex_inputs\<lparr>PETE_STATS := ex_hitterStats 150 10\<rparr>)) \<noteq> []"
    by code_simp
  show "\<forall>i\<in>set (naiveStatImpacts (ex_inputs\<lparr>PETE_STATS := ex_hitterStats 150 10\<rparr>)).
          isFin (aavImpact i)"
    by code_simp
  show "impactSum (naiveStatImpacts (ex_inputs\<lparr>PETE_STATS := ex_hitterStats 150 10\<rparr>)) \<noteq> Fin 0"
    by code_simp
  show "isFin (jsub (fairAAV (calculations (ex_inputs\<lparr>PETE_STATS := ex_hitterStats 150 10\<rparr>)))
          (baselineAAV (calculations (ex_inputs\<lparr>PETE_STATS := ex_hitterStats 150 10\<rparr>))))"
    by code_simp
qed

text \<open>
  Claim C1 says that the scaled impacts sum to \<open>fairAAV - baselineAAV\<close> for every
  non-empty cohort. The rescaling gives that whenever the naive sum is a finite number
  other than 0 (lemma \<open>scaled_impacts_sum_calculations\<close>), and with a naive sum of 0 the
  scale is 1 and the impacts are left as they are, as the claim says. But the naive
  impacts divide by running totals (C2), so their sum can be 0 while the multiplier is
  not 1: in the example they are \<open>5.408\<close> and \<open>-5.408\<close> and twelve zeros, the scaled
  impacts sum to 0, and \<open>fairAAV - baselineAAV = 21.632 \<times> (0.975 - 1) = -0.5408\<close>.
\<close>

theorem C1_scaled_sum_misses_difference:
  "impactSum (naiveStatImpacts ex_inputs) = Fin 0 \<and>
   impactSum (statImpacts (calculations ex_inputs)) = Fin 0 \<and>
   jsub (fairAAV (calculations ex_inputs)) (baselineAAV (calculations ex_inputs)) = Fin (- 0.5408)"
  by code_simp

end
